theory Spec2Isabelle
  imports Main "HOL-Library.Multiset"
begin

section \<open>Python strings\<close>

text \<open>
  A Python \<open>str\<close> is modelled as a \<open>string\<close> holding its UTF-8 encoding. Equality,
  \<open>in\<close>, \<open>startswith\<close> and \<open>split\<close> agree on the encoding and on the code points
  (UTF-8 is self-synchronising); \<open>len\<close> and slicing count code points, so they are
  written out below.

  \<open>str.lower\<close> is modelled on the letters of ASCII, of Latin-1 (U+00C0 to U+00DE) and of
  the Cyrillic block (U+0400 to U+042F); every other byte is left as it is. On the texts
  that \<open>supported_text\<close> admits (ASCII, the Latin-1 letters, Cyrillic, Arabic,
  Devanagari, kana and the unified ideographs, which are the scripts of the tables of the
  source) this is what \<open>str.lower\<close> computes. \<open>str.strip\<close> and the splitting of a class
  attribute remove the white space of \<open>str.isspace\<close>: the ASCII characters 9 to 13, 28
  to 32, and U+0085, U+00A0, U+1680, U+2000 to U+200A, U+2028, U+2029, U+202F, U+205F,
  U+3000.
\<close>

definition lower_char :: "char \<Rightarrow> char" where
  "lower_char c =
     (let n = (of_char c :: nat) in
      if 65 \<le> n \<and> n \<le> 90
      then (case c of Char b0 b1 b2 b3 b4 b5 b6 b7 \<Rightarrow> Char b0 b1 b2 b3 b4 True b6 b7)
      else c)"

text \<open>Adding 32 or 16 to a byte whose bit of that value is 0, and subtracting 32 from a
  byte whose bit of that value is 1.\<close>

definition plus32 :: "char \<Rightarrow> char" where
  "plus32 c = (case c of Char b0 b1 b2 b3 b4 b5 b6 b7 \<Rightarrow> Char b0 b1 b2 b3 b4 True b6 b7)"

definition plus16 :: "char \<Rightarrow> char" where
  "plus16 c = (case c of Char b0 b1 b2 b3 b4 b5 b6 b7 \<Rightarrow> Char b0 b1 b2 b3 True b5 b6 b7)"

definition minus32 :: "char \<Rightarrow> char" where
  "minus32 c = (case c of Char b0 b1 b2 b3 b4 b5 b6 b7 \<Rightarrow> Char b0 b1 b2 b3 b4 False b6 b7)"

text \<open>
  The letters of two bytes: U+00C0 to U+00DE without U+00D7 (bytes C3 80 to C3 9E) go to
  the code point 32 higher; U+0400 to U+040F (D0 80 to D0 8F) go to U+0450 to U+045F
  (D1 90 to D1 9F); U+0410 to U+041F (D0 90 to D0 9F) go to U+0430 to U+043F (D0 B0 to
  D0 BF); U+0420 to U+042F (D0 A0 to D0 AF) go to U+0440 to U+044F (D1 80 to D1 8F).
\<close>

fun lower :: "string \<Rightarrow> string" where
  "lower [] = []"
| "lower [c] = [lower_char c]"
| "lower (c # d # cs) =
     (let m = (of_char c :: nat); n = (of_char d :: nat) in
      if m = 0xC3 \<and> 0x80 \<le> n \<and> n \<le> 0x9E \<and> n \<noteq> 0x97 then c # plus32 d # lower cs
      else if m = 0xD0 \<and> 0x80 \<le> n \<and> n \<le> 0x8F then CHR 0xD1 # plus16 d # lower cs
      else if m = 0xD0 \<and> 0x90 \<le> n \<and> n \<le> 0x9F then c # plus32 d # lower cs
      else if m = 0xD0 \<and> 0xA0 \<le> n \<and> n \<le> 0xAF then CHR 0xD1 # minus32 d # lower cs
      else lower_char c # lower (d # cs))"

text \<open>White space of one, two and three bytes.\<close>

definition is_space :: "char \<Rightarrow> bool" where
  "is_space c =
     (let n = (of_char c :: nat) in (9 \<le> n \<and> n \<le> 13) \<or> (28 \<le> n \<and> n \<le> 32))"

definition is_space2 :: "char \<Rightarrow> char \<Rightarrow> bool" where
  "is_space2 a b = (a = CHR 0xC2 \<and> (b = CHR 0x85 \<or> b = CHR 0xA0))"

definition is_space3 :: "char \<Rightarrow> char \<Rightarrow> char \<Rightarrow> bool" where
  "is_space3 a b c =
     (let n = (of_char c :: nat) in
      (a = CHR 0xE1 \<and> b = CHR 0x9A \<and> c = CHR 0x80)
      \<or> (a = CHR 0xE2 \<and> b = CHR 0x80
          \<and> ((0x80 \<le> n \<and> n \<le> 0x8A) \<or> c = CHR 0xA8 \<or> c = CHR 0xA9 \<or> c = CHR 0xAF))
      \<or> (a = CHR 0xE2 \<and> b = CHR 0x81 \<and> c = CHR 0x9F)
      \<or> (a = CHR 0xE3 \<and> b = CHR 0x80 \<and> c = CHR 0x80))"

text \<open>\<open>lstrip\<close> removes the white space at the start; \<open>rstrip\<close> keeps the bytes before
  the run of white space that ends the string; \<open>strip s\<close> is \<open>s.strip()\<close>.\<close>

fun lstrip :: "string \<Rightarrow> string" where
  "lstrip (a # b # c # r) =
     (if is_space a then lstrip (b # c # r)
      else if is_space2 a b then lstrip (c # r)
      else if is_space3 a b c then lstrip r
      else a # b # c # r)"
| "lstrip [a, b] = (if is_space a then lstrip [b] else if is_space2 a b then [] else [a, b])"
| "lstrip [a] = (if is_space a then [] else [a])"
| "lstrip [] = []"

fun rstrip :: "string \<Rightarrow> string" where
  "rstrip [] = []"
| "rstrip (c # cs) = (if lstrip (c # cs) = [] then [] else c # rstrip cs)"

definition strip :: "string \<Rightarrow> string" where
  "strip s = rstrip (lstrip s)"

fun startswith :: "string \<Rightarrow> string \<Rightarrow> bool" where
  "startswith s [] = True"
| "startswith [] (p # ps) = False"
| "startswith (c # cs) (p # ps) = (c = p \<and> startswith cs ps)"

text \<open>\<open>contains sub s\<close> is Python's \<open>sub in s\<close>.\<close>

fun contains :: "string \<Rightarrow> string \<Rightarrow> bool" where
  "contains sub [] = (sub = [])"
| "contains sub (c # cs) = (startswith (c # cs) sub \<or> contains sub cs)"

text \<open>\<open>split_on sep s\<close> is \<open>s.split(sep)\<close> for a separator of one character.\<close>

fun split_on :: "char \<Rightarrow> string \<Rightarrow> string list" where
  "split_on sep [] = [[]]"
| "split_on sep (c # cs) =
     (if c = sep then [] # split_on sep cs
      else (case split_on sep cs of
              [] \<Rightarrow> [[c]]
            | w # ws \<Rightarrow> (c # w) # ws))"

text \<open>\<open>words s\<close> is the list of the maximal runs of \<open>s\<close> without white space; \<open>acc\<close> holds
  the run being read, last byte first.\<close>

definition flush :: "string \<Rightarrow> string list \<Rightarrow> string list" where
  "flush acc ws = (if acc = [] then ws else rev acc # ws)"

fun words_acc :: "string \<Rightarrow> string \<Rightarrow> string list" where
  "words_acc acc (a # b # c # r) =
     (if is_space a then flush acc (words_acc [] (b # c # r))
      else if is_space2 a b then flush acc (words_acc [] (c # r))
      else if is_space3 a b c then flush acc (words_acc [] r)
      else words_acc (a # acc) (b # c # r))"
| "words_acc acc [a, b] =
     (if is_space a then flush acc (words_acc [] [b])
      else if is_space2 a b then flush acc []
      else words_acc (a # acc) [b])"
| "words_acc acc [a] = (if is_space a then flush acc [] else flush (a # acc) [])"
| "words_acc acc [] = flush acc []"

definition words :: "string \<Rightarrow> string list" where
  "words s = words_acc [] s"


text \<open>\<open>join sep xs\<close> is \<open>sep.join(xs)\<close>.\<close>

fun join :: "string \<Rightarrow> string list \<Rightarrow> string" where
  "join sep [] = []"
| "join sep [x] = x"
| "join sep (x # y # ys) = x @ sep @ join sep (y # ys)"

text \<open>Code points: a byte of the form \<open>10xxxxxx\<close> continues the previous code point.\<close>

definition is_continuation :: "char \<Rightarrow> bool" where
  "is_continuation c = (let n = (of_char c :: nat) in 128 \<le> n \<and> n < 192)"

definition py_len :: "string \<Rightarrow> nat" where
  "py_len s = length (filter (\<lambda>c. \<not> is_continuation c) s)"

text \<open>\<open>py_take n s\<close> is the slice \<open>s[:n]\<close>: the first \<open>n\<close> code points of \<open>s\<close>.\<close>

fun py_take :: "nat \<Rightarrow> string \<Rightarrow> string" where
  "py_take n [] = []"
| "py_take n (c # cs) =
     (if is_continuation c then c # py_take n cs
      else (case n of 0 \<Rightarrow> [] | Suc m \<Rightarrow> c # py_take m cs))"

section \<open>Parsed documents\<close>

text \<open>
  The source builds every document with \<open>BeautifulSoup(response.text, "html.parser")\<close>
  and queries it through the library. The tree is modelled as the parser leaves it:
  a tag has a name, a dictionary of attributes (an association list read with
  \<open>map_of\<close>) and its children in document order. \<open>Text\<close> is a string that
  \<open>get_text\<close> returns; \<open>Raw\<close> is a string that it skips (a comment, the content
  of a script or style element). The multi-valued attributes \<open>class\<close> and \<open>rel\<close>
  hold the white-space separated list of their raw value. The document itself is the
  tag the library names \<open>[document]\<close>.
\<close>

datatype node =
    Text string
  | Raw string
  | Tag string "(string \<times> string) list" "node list"

fun tag_name :: "node \<Rightarrow> string option" where
  "tag_name (Tag n a cs) = Some n"
| "tag_name _ = None"

fun attrs :: "node \<Rightarrow> (string \<times> string) list" where
  "attrs (Tag n a cs) = a"
| "attrs _ = []"

definition is_tag :: "node \<Rightarrow> bool" where
  "is_tag x = (tag_name x \<noteq> None)"

definition has_attr :: "node \<Rightarrow> string \<Rightarrow> bool" where
  "has_attr x k = (map_of (attrs x) k \<noteq> None)"

text \<open>\<open>get x k d\<close> is \<open>x.get(k, d)\<close> on an attribute with a single value.\<close>

definition get :: "node \<Rightarrow> string \<Rightarrow> string \<Rightarrow> string" where
  "get x k d = (case map_of (attrs x) k of None \<Rightarrow> d | Some v \<Rightarrow> v)"

text \<open>\<open>get_list x k\<close> is \<open>x.get(k, [])\<close> on a multi-valued attribute.\<close>

definition get_list :: "node \<Rightarrow> string \<Rightarrow> string list" where
  "get_list x k = (case map_of (attrs x) k of None \<Rightarrow> [] | Some v \<Rightarrow> words v)"

text \<open>The descendants of a node, in document order; the node itself is not one.\<close>

fun descendants :: "node \<Rightarrow> node list" where
  "descendants (Text s) = []"
| "descendants (Raw s) = []"
| "descendants (Tag n a cs) = concat (map (\<lambda>c. c # descendants c) cs)"

fun get_text :: "node \<Rightarrow> string" where
  "get_text (Text s) = s"
| "get_text (Raw s) = []"
| "get_text (Tag n a cs) = concat (map get_text cs)"


text \<open>\<open>find_all_tags x\<close> is \<open>x.find_all()\<close>, \<open>find_all x n\<close> is \<open>x.find_all(n)\<close> and
  \<open>find_all_in x ns\<close> is \<open>x.find_all(ns)\<close> for a list of names.\<close>

definition find_all_tags :: "node \<Rightarrow> node list" where
  "find_all_tags x = filter is_tag (descendants x)"

definition find_all :: "node \<Rightarrow> string \<Rightarrow> node list" where
  "find_all x n = filter (\<lambda>d. tag_name d = Some n) (descendants x)"

definition find_all_in :: "node \<Rightarrow> string list \<Rightarrow> node list" where
  "find_all_in x ns =
     filter (\<lambda>d. case tag_name d of None \<Rightarrow> False | Some n \<Rightarrow> n \<in> set ns) (descendants x)"

text \<open>\<open>find_tag x n\<close> is \<open>x.find(n)\<close> and \<open>find_id x i\<close> is \<open>x.find(id=i)\<close>: the first
  match, or \<open>None\<close>.\<close>

definition first :: "'a list \<Rightarrow> 'a option" where
  "first xs = (case xs of [] \<Rightarrow> None | x # _ \<Rightarrow> Some x)"

definition find_tag :: "node \<Rightarrow> string \<Rightarrow> node option" where
  "find_tag x n = first (find_all x n)"

definition find_id :: "node \<Rightarrow> string \<Rightarrow> node option" where
  "find_id x i = first (filter (\<lambda>d. is_tag d \<and> map_of (attrs d) ''id'' = Some i) (descendants x))"

text \<open>\<open>string_of x\<close> is the library's \<open>x.string\<close>: the only string below \<open>x\<close>, if
  \<open>x\<close> has exactly one child and that child has one.\<close>

fun string_of :: "node \<Rightarrow> string option" where
  "string_of (Text s) = Some s"
| "string_of (Raw s) = Some s"
| "string_of (Tag n a [c]) = string_of c"
| "string_of (Tag n a cs) = None"

section \<open>The language-option detector\<close>

datatype signal =
    LanguageSelect nat nat string
  | LanguageMenu "string list" "string list" string
  | IdExactMatch string string
  | AlternateHreflang "string list" nat
  | GoogleTranslate string
  | GoogleTranslateScript string

fun is_language_select :: "signal \<Rightarrow> bool" where
  "is_language_select (LanguageSelect c n s) = True"
| "is_language_select _ = False"

fun is_alternate_hreflang :: "signal \<Rightarrow> bool" where
  "is_alternate_hreflang (AlternateHreflang ls n) = True"
| "is_alternate_hreflang _ = False"

definition language_names :: "(string \<times> string) list" where
  "language_names =
     [(''english'', ''en''),
      (''espa'' @ [CHR 0xC3, CHR 0xB1] @ ''ol'', ''es''),
      (''spanish'', ''es''),
      (''fran'' @ [CHR 0xC3, CHR 0xA7] @ ''ais'', ''fr''),
      (''french'', ''fr''),
      (''deutsch'', ''de''),
      (''german'', ''de''),
      (''italiano'', ''it''),
      (''italian'', ''it''),
      (''portugu'' @ [CHR 0xC3, CHR 0xAA] @ ''s'', ''pt''),
      (''portuguese'', ''pt''),
      ([CHR 0xD1, CHR 0x80, CHR 0xD1, CHR 0x83, CHR 0xD1, CHR 0x81, CHR 0xD1, CHR 0x81,
        CHR 0xD0, CHR 0xBA, CHR 0xD0, CHR 0xB8, CHR 0xD0, CHR 0xB9], ''ru''),
      (''russian'', ''ru''),
      ([CHR 0xE4, CHR 0xB8, CHR 0xAD, CHR 0xE6, CHR 0x96, CHR 0x87], ''zh''),
      (''chinese'', ''zh''),
      ([CHR 0xE6, CHR 0x97, CHR 0xA5, CHR 0xE6, CHR 0x9C, CHR 0xAC, CHR 0xE8, CHR 0xAA,
        CHR 0x9E], ''ja''),
      (''japanese'', ''ja''),
      ([CHR 0xD8, CHR 0xA7, CHR 0xD9, CHR 0x84, CHR 0xD8, CHR 0xB9, CHR 0xD8, CHR 0xB1,
        CHR 0xD8, CHR 0xA8, CHR 0xD9, CHR 0x8A, CHR 0xD8, CHR 0xA9], ''ar''),
      (''arabic'', ''ar''),
      ([CHR 0xE0, CHR 0xA4, CHR 0xB9, CHR 0xE0, CHR 0xA4, CHR 0xBF, CHR 0xE0, CHR 0xA4,
        CHR 0xA8, CHR 0xE0, CHR 0xA5, CHR 0x8D, CHR 0xE0, CHR 0xA4, CHR 0xA6, CHR 0xE0,
        CHR 0xA5, CHR 0x80], ''hi''),
      (''hindi'', ''hi'')]"

definition language_codes :: "string list" where
  "language_codes =
     [''en'', ''es'', ''fr'', ''de'', ''it'', ''pt'', ''ru'', ''zh'', ''ja'', ''ar'', ''hi'']"

definition exclude_domains :: "string list" where
  "exclude_domains =
     [''scholar.google.com'', ''translate.google.com'', ''accounts.google.com'',
      ''twitter.com'', ''facebook.com'', ''linkedin.com'', ''youtube.com'']"

subsection \<open>Approach 1: language selector dropdowns\<close>

definition lang_indicators :: "string list" where
  "lang_indicators = [''lang'', ''idioma'', ''sprache'', ''langue'', ''language'', ''locale'']"

definition has_lang_indicator :: "node \<Rightarrow> bool" where
  "has_lang_indicator select =
     (let select_id = lower (get select ''id'' []);
          select_name = lower (get select ''name'' []);
          select_classes = lower (join '' '' (get_list select ''class''))
      in list_ex (\<lambda>indicator. contains indicator select_id
                               \<or> contains indicator select_name
                               \<or> contains indicator select_classes) lang_indicators)"

definition lang_code_matches :: "string list \<Rightarrow> nat" where
  "lang_code_matches option_values =
     length (filter (\<lambda>code. list_ex (\<lambda>val. val = code
                                           \<or> startswith val (code @ ''-'')
                                           \<or> startswith val (code @ ''_'')) option_values)
               language_codes)"

definition lang_name_matches :: "string list \<Rightarrow> nat" where
  "lang_name_matches option_texts =
     length (filter (\<lambda>name. list_ex (\<lambda>text. contains name text) option_texts)
               (map fst language_names))"

text \<open>The body of the loop over the select elements: the signals one element appends.\<close>

definition language_select :: "(node \<Rightarrow> string) \<Rightarrow> node \<Rightarrow> signal list" where
  "language_select str select =
     (let options = find_all select ''option'' in
      if 2 \<le> length options \<and> length options \<le> 15 then
        if \<not> has_lang_indicator select then
          (let option_values = map (\<lambda>opt. lower (get opt ''value'' [])) options;
               option_texts = map (\<lambda>opt. lower (strip (get_text opt))) options;
               code_matches = lang_code_matches option_values;
               name_matches = lang_name_matches option_texts
           in if 2 \<le> code_matches \<or> 2 \<le> name_matches
              then [LanguageSelect code_matches name_matches (py_take 200 (str select))]
              else [])
        else []
      else [])"

definition approach1 :: "(node \<Rightarrow> string) \<Rightarrow> node \<Rightarrow> signal list" where
  "approach1 str soup = concat (map (language_select str) (find_all soup ''select''))"

subsection \<open>Approach 2: groups of language option links\<close>

definition lang_nav_terms :: "string list" where
  "lang_nav_terms =
     [''language-selector'', ''lang-selector'', ''language-menu'', ''lang-menu'',
      ''language-nav'', ''lang-nav'', ''language-switcher'', ''lang-switcher'']"

definition is_az :: "char \<Rightarrow> bool" where
  "is_az c = (let n = (of_char c :: nat) in 97 \<le> n \<and> n \<le> 122)"

text \<open>
  \<open>re.search(r"/([a-z]{2})(?:-[a-z]{2})?(/|$|\?)", href)\<close>: \<open>path_search\<close> returns group 1
  of the leftmost match. \<open>path_end r\<close> says that \<open>(/|$|\?)\<close> matches at the start of
  \<open>r\<close>; \<open>$\<close> matches at the end of the string and before a final line feed.
\<close>

fun path_end :: "string \<Rightarrow> bool" where
  "path_end [] = True"
| "path_end (c # cs) = (c = CHR ''/'' \<or> c = CHR ''?'' \<or> (c = CHR 0x0A \<and> cs = []))"

fun region_then_end :: "string \<Rightarrow> bool" where
  "region_then_end (d # x # y # r) = (d = CHR ''-'' \<and> is_az x \<and> is_az y \<and> path_end r)"
| "region_then_end _ = False"

fun path_match_here :: "string \<Rightarrow> string option" where
  "path_match_here (s # a # b # r) =
     (if s = CHR ''/'' \<and> is_az a \<and> is_az b \<and> (region_then_end r \<or> path_end r)
      then Some [a, b] else None)"
| "path_match_here _ = None"

fun path_search :: "string \<Rightarrow> string option" where
  "path_search [] = None"
| "path_search (c # cs) =
     (case path_match_here (c # cs) of Some g \<Rightarrow> Some g | None \<Rightarrow> path_search cs)"

text \<open>\<open>re.search(r"[\?&](lang|language)=([a-z]{2})", href)\<close>: \<open>param_search\<close> returns
  group 2 of the leftmost match.\<close>

fun two_az :: "string \<Rightarrow> string option" where
  "two_az (a # b # r) = (if is_az a \<and> is_az b then Some [a, b] else None)"
| "two_az _ = None"

fun param_match_here :: "string \<Rightarrow> string option" where
  "param_match_here [] = None"
| "param_match_here (c # r) =
     (if c = CHR ''?'' \<or> c = CHR ''&'' then
        (if startswith r ''lang='' then two_az (drop 5 r)
         else if startswith r ''language='' then two_az (drop 9 r)
         else None)
      else None)"

fun param_search :: "string \<Rightarrow> string option" where
  "param_search [] = None"
| "param_search (c # cs) =
     (case param_match_here (c # cs) of Some g \<Rightarrow> Some g | None \<Rightarrow> param_search cs)"

text \<open>What one href adds to \<open>lang_path_matches\<close>; the \<open>continue\<close> of the source skips
  the second append only.\<close>

definition href_lang_matches :: "string \<Rightarrow> string list" where
  "href_lang_matches href =
     (case path_search href of
        Some g \<Rightarrow> if g \<in> set language_codes then [g] else []
      | None \<Rightarrow> [])
     @ (case param_search href of
          Some g \<Rightarrow>
            if g \<in> set language_codes then
              (if contains ''hl='' href \<and> contains ''scholar.google'' href then [] else [g])
            else []
        | None \<Rightarrow> [])"

text \<open>What one link text adds to \<open>text_lang_matches\<close>: the code of the first entry of
  \<open>language_names\<close> that fits, after which the source breaks out of the inner loop.\<close>

definition text_lang_match :: "string \<Rightarrow> string list" where
  "text_lang_match text =
     (case List.find (\<lambda>(name, code). text = name \<or> text = code
                                       \<or> startswith text (name @ '' '')) language_names of
        None \<Rightarrow> []
      | Some (name, code) \<Rightarrow> [code])"

text \<open>A Python set is a list without duplicates here; the order in which \<open>list(s)\<close>
  enumerates a set is not specified by the language.\<close>

definition language_menu :: "(node \<Rightarrow> string) \<Rightarrow> node \<Rightarrow> signal list" where
  "language_menu str nav =
     (if 20 < length (find_all_tags nav) then []
      else
        (let nav_id = lower (get nav ''id'' []);
             nav_classes = lower (join '' '' (get_list nav ''class''));
             explicit_lang_element =
               list_ex (\<lambda>term. contains term nav_id \<or> contains term nav_classes) lang_nav_terms;
             required_matches = (if explicit_lang_element then 1 else 2 :: nat);
             links = find_all nav ''a''
         in if 2 \<le> length links \<and> length links \<le> 10 then
              (let filtered_links =
                     filter (\<lambda>link. \<not> list_ex (\<lambda>domain. contains domain (get link ''href'' []))
                                          exclude_domains) links
               in if length filtered_links < 2 then []
                  else
                    (let href_values = map (\<lambda>link. lower (get link ''href'' [])) filtered_links;
                         link_texts = map (\<lambda>link. lower (strip (get_text link))) filtered_links;
                         lang_path_matches = concat (map href_lang_matches href_values);
                         unique_lang_paths = remdups lang_path_matches;
                         text_lang_matches = concat (map text_lang_match link_texts);
                         unique_text_matches = remdups text_lang_matches;
                         all_matches = remdups (unique_lang_paths @ unique_text_matches)
                     in if required_matches \<le> length all_matches
                        then [LanguageMenu unique_lang_paths unique_text_matches
                                (py_take 200 (str nav))]
                        else []))
            else []))"

definition approach2 :: "(node \<Rightarrow> string) \<Rightarrow> node \<Rightarrow> signal list" where
  "approach2 str soup =
     concat (map (language_menu str) (find_all_in soup [''nav'', ''ul'', ''div'']))"

subsection \<open>Approach 3: specific id patterns\<close>

definition lang_id_patterns :: "string list" where
  "lang_id_patterns =
     [''language-selector'', ''languageSelector'', ''language-switcher'', ''languageSwitcher'',
      ''lang-selector'', ''langSelector'', ''lang-switcher'', ''langSwitcher'',
      ''select-language'', ''selectLanguage'', ''change-language'', ''changeLanguage'',
      ''translate-button'', ''translateButton'', ''translation-menu'', ''translationMenu'']"

definition id_exact_match :: "(node \<Rightarrow> string) \<Rightarrow> node \<Rightarrow> string \<Rightarrow> signal list" where
  "id_exact_match str soup pattern =
     (case find_id soup pattern of
        None \<Rightarrow> []
      | Some element \<Rightarrow>
          if 1 \<le> length (find_all element ''a'')
             \<or> 1 \<le> length (find_all element ''select'')
             \<or> 1 \<le> length (find_all element ''button'')
          then [IdExactMatch pattern (py_take 200 (str element))]
          else [])"

definition approach3 :: "(node \<Rightarrow> string) \<Rightarrow> node \<Rightarrow> signal list" where
  "approach3 str soup = concat (map (id_exact_match str soup) lang_id_patterns)"

subsection \<open>Approach 4: alternate language versions via hreflang\<close>

text \<open>\<open>soup.find_all("link", attrs={"rel": "alternate", "hreflang": True})\<close>: a value of
  the multi-valued \<open>rel\<close> matches when one of its items is the string looked for.\<close>

definition alternate_links :: "node \<Rightarrow> node list" where
  "alternate_links soup =
     filter (\<lambda>link. ''alternate'' \<in> set (get_list link ''rel'') \<and> has_attr link ''hreflang'')
       (find_all soup ''link'')"

definition alt_langs :: "node \<Rightarrow> string list" where
  "alt_langs soup =
     remdups (filter (\<lambda>lang_code. lang_code \<noteq> [] \<and> lang_code \<noteq> ''en''
                                   \<and> lang_code \<noteq> ''x-default'')
                (map (\<lambda>link. lower (get link ''hreflang'' [])) (alternate_links soup)))"

definition approach4 :: "node \<Rightarrow> signal list" where
  "approach4 soup =
     (if alt_langs soup \<noteq> []
      then [AlternateHreflang (alt_langs soup) (length (alt_langs soup))]
      else [])"

subsection \<open>Approach 5: Google Translate\<close>

definition google_translate :: "(node \<Rightarrow> string) \<Rightarrow> node \<Rightarrow> signal list" where
  "google_translate str soup =
     (case find_id soup ''google_translate_element'' of
        None \<Rightarrow> []
      | Some gt_element \<Rightarrow> [GoogleTranslate (py_take 200 (str gt_element))])"

definition script_text :: "node \<Rightarrow> string" where
  "script_text script = (case string_of script of None \<Rightarrow> [] | Some s \<Rightarrow> s)"

definition google_translate_script :: "node \<Rightarrow> signal list" where
  "google_translate_script soup =
     (if list_ex (\<lambda>script. script_text script \<noteq> []
                            \<and> contains ''new google.translate.TranslateElement''
                                 (script_text script))
           (find_all soup ''script'')
      then [GoogleTranslateScript ''Google Translate implementation detected'']
      else [])"

definition approach5 :: "(node \<Rightarrow> string) \<Rightarrow> node \<Rightarrow> signal list" where
  "approach5 str soup = google_translate str soup @ google_translate_script soup"

text \<open>Every approach appends to the one list \<open>language_options\<close>, in this order. The
  parameter \<open>str\<close> is the library's rendering of an element as markup.\<close>

definition detect_language_options :: "(node \<Rightarrow> string) \<Rightarrow> node \<Rightarrow> signal list" where
  "detect_language_options str soup =
     approach1 str soup @ approach2 str soup @ approach3 str soup @ approach4 soup
     @ approach5 str soup"

section \<open>The primary language detector\<close>

text \<open>
  \<open>soup.select(tag)\<close> is called with the selectors \<open>main\<close>, \<open>article\<close>, \<open>section\<close>,
  \<open>div.content\<close> and \<open>div.main\<close>: an element name, or an element name and a class.
\<close>

datatype selector = ByName string | ByNameClass string string

fun select_css :: "node \<Rightarrow> selector \<Rightarrow> node list" where
  "select_css soup (ByName n) = find_all soup n"
| "select_css soup (ByNameClass n c) =
     filter (\<lambda>d. c \<in> set (get_list d ''class'')) (find_all soup n)"

definition content_tags :: "selector list" where
  "content_tags =
     [ByName ''main'', ByName ''article'', ByName ''section'',
      ByNameClass ''div'' ''content'', ByNameClass ''div'' ''main'']"

text \<open>
  The parameter \<open>detect\<close> is \<open>langdetect.detect\<close>; \<open>None\<close> is the exception it raises
  on a text it cannot classify. Step 3 of the source runs inside \<open>try\<close> with a bare
  \<open>except: pass\<close>, after which the function returns \<open>"unknown"\<close>.
\<close>

definition guess :: "(string \<Rightarrow> string option) \<Rightarrow> string \<Rightarrow> string" where
  "guess detect text = (case detect text of None \<Rightarrow> ''unknown'' | Some l \<Rightarrow> l)"

fun content_loop :: "(string \<Rightarrow> string option) \<Rightarrow> node \<Rightarrow> selector list \<Rightarrow> string option" where
  "content_loop detect soup [] = None"
| "content_loop detect soup (tag # tags) =
     (case select_css soup tag of
        [] \<Rightarrow> content_loop detect soup tags
      | c # _ \<Rightarrow>
          (let text = strip (get_text c)
           in if 100 < py_len text then Some (guess detect text)
              else content_loop detect soup tags))"

definition detect_from_content :: "(string \<Rightarrow> string option) \<Rightarrow> node \<Rightarrow> string" where
  "detect_from_content detect soup =
     (let paragraphs = find_all soup ''p'';
          text = join '' '' (map (\<lambda>p. strip (get_text p)) (take 5 paragraphs))
      in if paragraphs \<noteq> [] \<and> 100 < py_len text then guess detect text
         else
           (case content_loop detect soup content_tags of
              Some l \<Rightarrow> l
            | None \<Rightarrow>
                (case find_tag soup ''body'' of
                   None \<Rightarrow> ''unknown''
                 | Some body \<Rightarrow>
                     (let text = strip (get_text body)
                      in if 100 < py_len text then guess detect text else ''unknown''))))"

text \<open>\<open>soup.find("meta", attrs={"http-equiv": "content-language"})\<close>\<close>

definition find_meta_content_language :: "node \<Rightarrow> node option" where
  "find_meta_content_language soup =
     first (filter (\<lambda>d. map_of (attrs d) ''http-equiv'' = Some ''content-language'')
              (find_all soup ''meta''))"

text \<open>\<open>split_head sep s\<close> is \<open>s.split(sep)[0]\<close>.\<close>

definition split_head :: "char \<Rightarrow> string \<Rightarrow> string" where
  "split_head sep s = (case split_on sep s of [] \<Rightarrow> [] | w # _ \<Rightarrow> w)"

definition detect_from_meta :: "(string \<Rightarrow> string option) \<Rightarrow> node \<Rightarrow> string" where
  "detect_from_meta detect soup =
     (case find_meta_content_language soup of
        None \<Rightarrow> detect_from_content detect soup
      | Some meta_lang \<Rightarrow>
          if has_attr meta_lang ''content''
          then split_head CHR ''-'' (lower (get meta_lang ''content'' []))
          else detect_from_content detect soup)"

definition detect_primary_language :: "(string \<Rightarrow> string option) \<Rightarrow> node \<Rightarrow> string" where
  "detect_primary_language detect soup =
     (case find_tag soup ''html'' of
        None \<Rightarrow> detect_from_meta detect soup
      | Some html_tag \<Rightarrow>
          if has_attr html_tag ''lang'' then
            (let lang_attr = lower (get html_tag ''lang'' [])
             in if contains ''-'' lang_attr then split_head CHR ''-'' lang_attr
                else lang_attr)
          else detect_from_meta detect soup)"

section \<open>The non-English resource detector\<close>

datatype indicator = Indicator string string string

definition language_indicators :: "string list" where
  "language_indicators =
     [''/es/'', ''/fr/'', ''/de/'', ''/zh/'', ''/ru/'', ''/ja/'', ''/ar/'',
      ''espa'' @ [CHR 0xC3, CHR 0xB1] @ ''ol'',
      ''fran'' @ [CHR 0xC3, CHR 0xA7] @ ''ais'',
      ''deutsch'',
      [CHR 0xE4, CHR 0xB8, CHR 0xAD, CHR 0xE6, CHR 0x96, CHR 0x87],
      [CHR 0xD1, CHR 0x80, CHR 0xD1, CHR 0x83, CHR 0xD1, CHR 0x81, CHR 0xD1, CHR 0x81,
       CHR 0xD0, CHR 0xBA, CHR 0xD0, CHR 0xB8, CHR 0xD0, CHR 0xB9],
      [CHR 0xE6, CHR 0x97, CHR 0xA5, CHR 0xE6, CHR 0x9C, CHR 0xAC, CHR 0xE8, CHR 0xAA,
       CHR 0x9E],
      [CHR 0xD8, CHR 0xA7, CHR 0xD9, CHR 0x84, CHR 0xD8, CHR 0xB9, CHR 0xD8, CHR 0xB1,
       CHR 0xD8, CHR 0xA8, CHR 0xD9, CHR 0x8A, CHR 0xD8, CHR 0xA9]]"

text \<open>\<open>soup.find_all("a", href=True)\<close>\<close>

definition links_with_href :: "node \<Rightarrow> node list" where
  "links_with_href soup = filter (\<lambda>a. has_attr a ''href'') (find_all soup ''a'')"

definition link_indicators :: "(node \<Rightarrow> string) \<Rightarrow> node \<Rightarrow> indicator list" where
  "link_indicators str soup =
     concat (map (\<lambda>a.
       concat (map (\<lambda>indicator.
         if contains indicator (lower (get a ''href'' []))
            \<or> contains indicator (lower (get_text a))
         then [Indicator ''link_with_language'' indicator (py_take 100 (str a))]
         else []) language_indicators)) (links_with_href soup))"

text \<open>
  \<open>soup.find_all(["section", "div"], class_=re.compile("(resource|publication|paper|documentation)", re.I))\<close>:
  the library searches the pattern in every item of the class list and in the items
  joined by a space. The pattern is a choice of plain words and the search ignores case.
\<close>

definition resource_words :: "string list" where
  "resource_words = [''resource'', ''publication'', ''paper'', ''documentation'']"

definition resource_class :: "node \<Rightarrow> bool" where
  "resource_class x =
     (has_attr x ''class''
      \<and> (let classes = get_list x ''class''
         in list_ex (\<lambda>c. list_ex (\<lambda>w. contains w (lower c)) resource_words) classes
            \<or> list_ex (\<lambda>w. contains w (lower (join '' '' classes))) resource_words))"

definition resource_sections :: "node \<Rightarrow> node list" where
  "resource_sections soup = filter resource_class (find_all_in soup [''section'', ''div''])"

definition section_indicators :: "node \<Rightarrow> indicator list" where
  "section_indicators soup =
     concat (map (\<lambda>section.
       concat (map (\<lambda>indicator.
         if contains indicator (lower (get_text section))
         then [Indicator ''resource_section'' indicator (py_take 100 (get_text section))]
         else []) language_indicators)) (resource_sections soup))"

definition check_for_non_english_resources :: "(node \<Rightarrow> string) \<Rightarrow> node \<Rightarrow> string \<Rightarrow> bool" where
  "check_for_non_english_resources str soup primary_language =
     (if primary_language \<noteq> ''en'' \<and> primary_language \<noteq> ''unknown'' then True
      else
        (let non_english_indicators = link_indicators str soup @ section_indicators soup
         in 0 < length non_english_indicators))"

section \<open>The site classifier\<close>

text \<open>
  What \<open>analyze_website\<close> reads from outside is a parameter: \<open>requests_get\<close> is the
  request for a URL, with \<open>Inl e\<close> an exception whose \<open>str\<close> is \<open>e\<close>;
  \<open>BeautifulSoup\<close> is the parser, that may raise too; \<open>str_of\<close> renders an element;
  \<open>langdetect\<close> guesses the language of a text. The detectors are total functions on
  parsed documents. The progress line the source prints is not modelled.
\<close>

record org =
  org_name :: string
  org_url :: string

record response =
  response_status_code :: int
  response_text :: string

record world =
  requests_get :: "string \<Rightarrow> string + response"
  BeautifulSoup :: "string \<Rightarrow> string + node"
  str_of :: "node \<Rightarrow> string"
  langdetect :: "string \<Rightarrow> string option"

datatype result_status = StatusSuccess | StatusError

text \<open>The dictionary the source returns; \<open>status_code\<close> and \<open>error\<close> are keys that only
  some of the return paths set.\<close>

record site_result =
  name :: string
  url :: string
  status :: result_status
  status_code :: "int option"
  error :: "string option"
  primary_language :: "string option"
  has_language_options :: bool
  language_options :: "signal list"
  has_non_english_resources :: bool

definition bad_status_result :: "string \<Rightarrow> string \<Rightarrow> int \<Rightarrow> site_result" where
  "bad_status_result n u code =
     \<lparr>name = n, url = u, status = StatusError, status_code = Some code, error = None,
      primary_language = None, has_language_options = False, language_options = [],
      has_non_english_resources = False\<rparr>"

definition exception_result :: "string \<Rightarrow> string \<Rightarrow> string \<Rightarrow> site_result" where
  "exception_result n u e =
     \<lparr>name = n, url = u, status = StatusError, status_code = None, error = Some e,
      primary_language = None, has_language_options = False, language_options = [],
      has_non_english_resources = False\<rparr>"

definition analyze_soup :: "world \<Rightarrow> string \<Rightarrow> string \<Rightarrow> node \<Rightarrow> site_result" where
  "analyze_soup w n u soup =
     (let primary = detect_primary_language (langdetect w) soup;
          options = detect_language_options (str_of w) soup;
          resources = check_for_non_english_resources (str_of w) soup primary
      in \<lparr>name = n, url = u, status = StatusSuccess, status_code = None, error = None,
          primary_language = Some primary, has_language_options = (0 < length options),
          language_options = options, has_non_english_resources = resources\<rparr>)"

text \<open>The body of the \<open>try\<close> statement: \<open>Inl e\<close> is an exception that leaves it, \<open>Inr r\<close>
  a value that it returns.\<close>

definition try_body :: "world \<Rightarrow> string \<Rightarrow> string \<Rightarrow> string + site_result" where
  "try_body w n u =
     (case requests_get w u of
        Inl e \<Rightarrow> Inl e
      | Inr response \<Rightarrow>
          if response_status_code response \<noteq> 200
          then Inr (bad_status_result n u (response_status_code response))
          else
            (case BeautifulSoup w (response_text response) of
               Inl e \<Rightarrow> Inl e
             | Inr soup \<Rightarrow> Inr (analyze_soup w n u soup)))"

text \<open>The rows handed to \<open>analyze_website\<close> come from a table with the columns \<open>name\<close>
  and \<open>url\<close>, so the two lookups before the \<open>try\<close> statement find their keys.\<close>

definition analyze_website :: "world \<Rightarrow> org \<Rightarrow> site_result" where
  "analyze_website w org =
     (let n = org_name org; u = org_url org in
      case try_body w n u of
        Inr r \<Rightarrow> r
      | Inl e \<Rightarrow> exception_result n u e)"

text \<open>
  A finer model of the same call, for what can leave it. The argument is the dictionary
  \<open>row.to_dict()\<close>, and a lookup of a missing key raises \<open>KeyError\<close>; the two lookups
  and the \<open>print\<close> come before the \<open>try\<close> statement, so nothing catches what they
  raise. The line is written to the standard output, which is taken to accept it. Inside
  the \<open>try\<close> statement each of the three detectors may raise through the library calls
  it makes (rendering an element, walking the tree): \<open>faults\<close> says on which documents
  it does, and with which exception. \<open>except Exception\<close> catches every exception of the
  body.
\<close>

datatype exn = KeyError string | Raised string

record faults =
  primary_fault :: "node \<Rightarrow> string option"
  options_fault :: "node \<Rightarrow> string option"
  resources_fault :: "node \<Rightarrow> string \<Rightarrow> string option"

definition lookup :: "(string \<rightharpoonup> string) \<Rightarrow> string \<Rightarrow> exn + string" where
  "lookup d k = (case d k of None \<Rightarrow> Inl (KeyError k) | Some v \<Rightarrow> Inr v)"

definition try_block :: "world \<Rightarrow> faults \<Rightarrow> string \<Rightarrow> string \<Rightarrow> string + site_result" where
  "try_block w f n u =
     (case requests_get w u of
        Inl e \<Rightarrow> Inl e
      | Inr response \<Rightarrow>
          if response_status_code response \<noteq> 200
          then Inr (bad_status_result n u (response_status_code response))
          else
            (case BeautifulSoup w (response_text response) of
               Inl e \<Rightarrow> Inl e
             | Inr soup \<Rightarrow>
                 (case primary_fault f soup of
                    Some e \<Rightarrow> Inl e
                  | None \<Rightarrow>
                      (let primary = detect_primary_language (langdetect w) soup in
                       case options_fault f soup of
                         Some e \<Rightarrow> Inl e
                       | None \<Rightarrow>
                           (let options = detect_language_options (str_of w) soup in
                            case resources_fault f soup primary of
                              Some e \<Rightarrow> Inl e
                            | None \<Rightarrow>
                                Inr \<lparr>name = n, url = u, status = StatusSuccess,
                                     status_code = None, error = None,
                                     primary_language = Some primary,
                                     has_language_options = (0 < length options),
                                     language_options = options,
                                     has_non_english_resources =
                                       check_for_non_english_resources (str_of w) soup
                                         primary\<rparr>)))))"

text \<open>The result is the lines printed and either the exception that leaves the call or
  the dictionary it returns.\<close>

definition analyze_website_call ::
  "world \<Rightarrow> faults \<Rightarrow> (string \<rightharpoonup> string) \<Rightarrow> string list \<times> (exn + site_result)" where
  "analyze_website_call w f org =
     (case lookup org ''name'' of
        Inl x \<Rightarrow> ([], Inl x)
      | Inr n \<Rightarrow>
          (case lookup org ''url'' of
             Inl x \<Rightarrow> ([], Inl x)
           | Inr u \<Rightarrow>
               ([''Analyzing: '' @ n @ '' - '' @ u],
                (case try_block w f n u of
                   Inr r \<Rightarrow> Inr r
                 | Inl e \<Rightarrow> Inr (exception_result n u e)))))"

section \<open>The fetch orchestrator\<close>

text \<open>
  \<open>analyze_ai_safety_organizations\<close> submits one task per row to a pool of three workers
  and appends \<open>future.result()\<close> to \<open>results\<close> in the order in which
  \<open>as_completed\<close> yields the futures. A state is the list of the tasks not yet yielded
  and the results so far; a step yields any one of the pending tasks.
\<close>

inductive collect_step :: "world \<Rightarrow> org list \<times> site_result list \<Rightarrow> org list \<times> site_result list \<Rightarrow> bool"
  for w :: world where
  yield: "i < length pending \<Longrightarrow>
          collect_step w (pending, results)
            (take i pending @ drop (Suc i) pending, results @ [analyze_website w (pending ! i)])"

definition collects :: "world \<Rightarrow> org list \<Rightarrow> site_result list \<Rightarrow> bool" where
  "collects w orgs results = (collect_step w)\<^sup>*\<^sup>* (orgs, []) ([], results)"

section \<open>Example documents and worlds\<close>

text \<open>The library's document object holds the top-level nodes.\<close>

definition document :: "node list \<Rightarrow> node" where
  "document cs = Tag ''[document]'' [] cs"

definition option_tag :: "string \<Rightarrow> string \<Rightarrow> node" where
  "option_tag v t = Tag ''option'' [(''value'', v)] [Text t]"

text \<open>A rendering of an element that keeps its name only.\<close>

definition name_markup :: "node \<Rightarrow> string" where
  "name_markup x = (case tag_name x of None \<Rightarrow> [] | Some n \<Rightarrow> ''<'' @ n @ ''>'')"

text \<open>\<^verbatim>\<open><select id="language"><option value="a">A</option><option value="b">B</option></select>\<close>\<close>

definition labelled_select :: node where
  "labelled_select =
     Tag ''select'' [(''id'', ''language'')] [option_tag ''a'' ''A'', option_tag ''b'' ''B'']"


text \<open>A world in which every request has the same outcome and the parser the same result.\<close>

definition fixed_world :: "string + response \<Rightarrow> string + node \<Rightarrow> world" where
  "fixed_world r p =
     \<lparr>requests_get = (\<lambda>u. r), BeautifulSoup = (\<lambda>t. p), str_of = name_markup,
      langdetect = (\<lambda>t. None)\<rparr>"

definition response_of :: "int \<Rightarrow> string \<Rightarrow> response" where
  "response_of code body = \<lparr>response_status_code = code, response_text = body\<rparr>"

definition example_org :: org where
  "example_org = \<lparr>org_name = ''Example'', org_url = ''https://example.org''\<rparr>"

definition second_org :: org where
  "second_org = \<lparr>org_name = ''Second'', org_url = ''https://second.example''\<rparr>"

text \<open>A guesser that answers \<open>en\<close> for every text.\<close>

definition always_english :: "string \<Rightarrow> string option" where
  "always_english text = Some ''en''"

text \<open>\<^verbatim>\<open><html lang="de"><body>Hallo</body></html>\<close>\<close>

definition german_page :: node where
  "german_page = document [Tag ''html'' [(''lang'', ''de'')] [Tag ''body'' [] [Text ''Hallo'']]]"

text \<open>\<^verbatim>\<open><body>Hello</body>\<close>\<close>

definition bare_page :: node where
  "bare_page = document [Tag ''body'' [] [Text ''Hello'']]"

text \<open>\<^verbatim>\<open><html lang="fr-CA"><head><meta http-equiv="content-language" content="de"></head><body><p>Hello</p></body></html>\<close>\<close>

definition french_canadian_page :: node where
  "french_canadian_page =
     document [Tag ''html'' [(''lang'', ''fr-CA'')]
       [Tag ''head'' [] [Tag ''meta'' [(''http-equiv'', ''content-language''), (''content'', ''de'')] []],
        Tag ''body'' [] [Tag ''p'' [] [Text ''Hello'']]]]"

text \<open>\<^verbatim>\<open><html lang=""><head><meta http-equiv="content-language" content="de"></head></html>\<close>\<close>

definition empty_lang_page :: node where
  "empty_lang_page =
     document [Tag ''html'' [(''lang'', [])]
       [Tag ''head'' [] [Tag ''meta'' [(''http-equiv'', ''content-language''), (''content'', ''de'')] []]]]"

text \<open>\<open>alternate_link v\<close> is \<^verbatim>\<open><link rel="alternate" hreflang="v">\<close>.\<close>

definition alternate_link :: "string \<Rightarrow> node" where
  "alternate_link v = Tag ''link'' [(''rel'', ''alternate''), (''hreflang'', v)] []"

definition upper_en_page :: node where
  "upper_en_page = document [alternate_link ''EN'', alternate_link []]"

definition default_only_page :: node where
  "default_only_page = document [alternate_link ''x-default'', alternate_link ''en'']"

definition hreflang_page :: node where
  "hreflang_page =
     document [alternate_link ''en'', alternate_link ''fr'', alternate_link ''FR'',
               alternate_link ''de'', alternate_link ''x-default'']"




definition english_world :: "string + response \<Rightarrow> string + node \<Rightarrow> world" where
  "english_world r p =
     \<lparr>requests_get = (\<lambda>u. r), BeautifulSoup = (\<lambda>t. p), str_of = name_markup,
      langdetect = always_english\<rparr>"

text \<open>\<^verbatim>\<open><html><head><meta http-equiv="content-language"></head><body><p>Hello</p></body></html>\<close>\<close>

definition undeclared_page :: node where
  "undeclared_page =
     document [Tag ''html'' []
       [Tag ''head'' [] [Tag ''meta'' [(''http-equiv'', ''content-language'')] []],
        Tag ''body'' [] [Tag ''p'' [] [Text ''Hello'']]]]"

definition no_faults :: faults where
  "no_faults =
     \<lparr>primary_fault = (\<lambda>soup. None), options_fault = (\<lambda>soup. None),
      resources_fault = (\<lambda>soup primary. None)\<rparr>"

text \<open>Rendering an element of every document exceeds the recursion limit.\<close>

definition rendering_fails :: faults where
  "rendering_fails =
     \<lparr>primary_fault = (\<lambda>soup. None),
      options_fault = (\<lambda>soup. Some ''maximum recursion depth exceeded''),
      resources_fault = (\<lambda>soup primary. None)\<rparr>"

definition example_row :: "string \<rightharpoonup> string" where
  "example_row = map_of [(''name'', ''Example''), (''url'', ''https://example.org'')]"

definition nameless_row :: "string \<rightharpoonup> string" where
  "nameless_row = map_of [(''url'', ''https://example.org'')]"




section \<open>Evaluation and auxiliary facts\<close>

lemmas str_defs = lower_char_def plus32_def plus16_def minus32_def is_space_def is_space2_def
  is_space3_def strip_def words_def flush_def is_continuation_def

lemmas dom_defs = is_tag_def has_attr_def get_def get_list_def find_all_tags_def find_all_def
  find_all_in_def first_def find_tag_def find_id_def document_def option_tag_def

lemmas approach1_defs = approach1_def language_select_def has_lang_indicator_def
  lang_indicators_def lang_code_matches_def lang_name_matches_def language_codes_def
  language_names_def

lemmas approach2_defs = approach2_def language_menu_def lang_nav_terms_def

lemmas approach3_defs = approach3_def id_exact_match_def lang_id_patterns_def

lemmas approach4_defs = approach4_def alt_langs_def alternate_links_def

lemmas approach5_defs = approach5_def google_translate_def google_translate_script_def
  script_text_def

lemma lower_char_add32:
  "65 \<le> (of_char c :: nat) \<Longrightarrow> (of_char c :: nat) \<le> 90
   \<Longrightarrow> of_char (lower_char c) = (of_char c :: nat) + 32"
  by (cases c) (auto simp add: lower_char_def Let_def of_bool_def split: if_splits)

lemma language_select_cases:
  "language_select str select = [] \<or> (\<exists>c n s. language_select str select = [LanguageSelect c n s])"
  by (simp add: language_select_def Let_def)

lemma language_menu_cases:
  "language_menu str nav = [] \<or> (\<exists>p n s. language_menu str nav = [LanguageMenu p n s])"
  by (simp add: language_menu_def Let_def)

lemma id_exact_match_cases:
  "id_exact_match str soup pattern = [] \<or> (\<exists>s. id_exact_match str soup pattern = [IdExactMatch pattern s])"
  by (simp add: id_exact_match_def split: option.splits)

lemma approach1_kind:
  assumes "y \<in> set (approach1 str soup)"
  shows "\<exists>c n s. y = LanguageSelect c n s"
proof -
  from assms obtain x where "y \<in> set (language_select str x)"
    by (auto simp: approach1_def)
  then show ?thesis using language_select_cases [of str x] by auto
qed

lemma approach2_kind:
  assumes "y \<in> set (approach2 str soup)"
  shows "\<exists>p n s. y = LanguageMenu p n s"
proof -
  from assms obtain x where "y \<in> set (language_menu str x)"
    by (auto simp: approach2_def)
  then show ?thesis using language_menu_cases [of str x] by auto
qed

lemma approach3_kind:
  assumes "y \<in> set (approach3 str soup)"
  shows "\<exists>p s. y = IdExactMatch p s"
proof -
  from assms obtain x where "y \<in> set (id_exact_match str soup x)"
    by (auto simp: approach3_def)
  then show ?thesis using id_exact_match_cases [of str soup x] by auto
qed

lemma approach4_kind: "y \<in> set (approach4 soup) \<Longrightarrow> \<exists>ls n. y = AlternateHreflang ls n"
  by (auto simp: approach4_def split: if_splits)

lemma approach5_kind:
  "y \<in> set (approach5 str soup) \<Longrightarrow> (\<exists>s. y = GoogleTranslate s) \<or> (\<exists>s. y = GoogleTranslateScript s)"
  by (auto simp: approach5_def google_translate_def google_translate_script_def
      split: option.splits if_splits)

lemma filter_all: "(\<And>y. y \<in> set xs \<Longrightarrow> P y) \<Longrightarrow> filter P xs = xs"
  by (simp add: filter_id_conv)

lemma filter_none: "(\<And>y. y \<in> set xs \<Longrightarrow> \<not> P y) \<Longrightarrow> filter P xs = []"
  by (simp add: filter_empty_conv)

lemma language_select_signals:
  "filter is_language_select (detect_language_options str soup) = approach1 str soup"
proof -
  have 1: "filter is_language_select (approach1 str soup) = approach1 str soup"
    by (rule filter_all) (auto dest: approach1_kind)
  have 2: "filter is_language_select (approach2 str soup) = []"
    by (rule filter_none) (auto dest: approach2_kind)
  have 3: "filter is_language_select (approach3 str soup) = []"
    by (rule filter_none) (auto dest: approach3_kind)
  have 4: "filter is_language_select (approach4 soup) = []"
    by (rule filter_none) (auto dest: approach4_kind)
  have 5: "filter is_language_select (approach5 str soup) = []"
    by (rule filter_none) (auto dest: approach5_kind)
  show ?thesis by (simp add: detect_language_options_def 1 2 3 4 5)
qed

lemma alternate_hreflang_signals:
  "filter is_alternate_hreflang (detect_language_options str soup) = approach4 soup"
proof -
  have 1: "filter is_alternate_hreflang (approach1 str soup) = []"
    by (rule filter_none) (auto dest: approach1_kind)
  have 2: "filter is_alternate_hreflang (approach2 str soup) = []"
    by (rule filter_none) (auto dest: approach2_kind)
  have 3: "filter is_alternate_hreflang (approach3 str soup) = []"
    by (rule filter_none) (auto dest: approach3_kind)
  have 4: "filter is_alternate_hreflang (approach4 soup) = approach4 soup"
    by (rule filter_all) (auto dest: approach4_kind)
  have 5: "filter is_alternate_hreflang (approach5 str soup) = []"
    by (rule filter_none) (auto dest: approach5_kind)
  show ?thesis by (simp add: detect_language_options_def 1 2 3 4 5)
qed

lemma language_select_skips_indicator:
  "has_lang_indicator select \<Longrightarrow> language_select str select = []"
  by (simp add: language_select_def Let_def)

lemmas world_defs = fixed_world_def example_org_def second_org_def response_of_def
  analyze_website_def try_body_def bad_status_result_def exception_result_def analyze_soup_def

lemmas primary_defs = detect_primary_language_def detect_from_meta_def detect_from_content_def
  find_meta_content_language_def split_head_def content_tags_def guess_def

lemmas resource_defs = check_for_non_english_resources_def link_indicators_def
  section_indicators_def links_with_href_def resource_sections_def resource_class_def
  resource_words_def language_indicators_def

lemma find_all_descendant: "x \<in> set (find_all soup n) \<Longrightarrow> x \<in> set (descendants soup)"
  by (simp add: find_all_def)

lemma select_css_descendant: "x \<in> set (select_css soup sel) \<Longrightarrow> x \<in> set (descendants soup)"
  by (cases sel) (auto simp: find_all_def)

lemma find_tag_descendant: "find_tag soup n = Some x \<Longrightarrow> x \<in> set (descendants soup)"
  by (auto simp: find_tag_def first_def find_all_def split: list.splits
      dest!: arg_cong [where f = set])

lemma content_loop_no_answer:
  assumes "\<And>c. c \<in> set (descendants soup) \<Longrightarrow> 100 < py_len (strip (get_text c))
                 \<Longrightarrow> detect (strip (get_text c)) = None"
  shows "content_loop detect soup tags = None \<or> content_loop detect soup tags = Some ''unknown''"
proof (induction tags)
  case Nil
  show ?case by simp
next
  case (Cons tag tags)
  show ?case
  proof (cases "select_css soup tag")
    case Nil
    then show ?thesis using Cons by simp
  next
    case (Cons c cs)
    then have "c \<in> set (descendants soup)"
      using select_css_descendant [of c soup tag] by simp
    then have "100 < py_len (strip (get_text c)) \<Longrightarrow> guess detect (strip (get_text c)) = ''unknown''"
      using assms by (simp add: guess_def)
    then show ?thesis using Cons Cons.IH by (auto simp: Let_def)
  qed
qed

lemma detect_from_content_no_answer:
  assumes par: "100 < py_len (join '' '' (map (\<lambda>p. strip (get_text p)) (take 5 (find_all soup ''p''))))
                 \<Longrightarrow> detect (join '' '' (map (\<lambda>p. strip (get_text p)) (take 5 (find_all soup ''p'')))) = None"
    and desc: "\<And>c. c \<in> set (descendants soup) \<Longrightarrow> 100 < py_len (strip (get_text c))
                 \<Longrightarrow> detect (strip (get_text c)) = None"
  shows "detect_from_content detect soup = ''unknown''"
proof -
  have loop: "content_loop detect soup content_tags = None
              \<or> content_loop detect soup content_tags = Some ''unknown''"
    using desc by (rule content_loop_no_answer)
  have body: "guess detect (strip (get_text b)) = ''unknown''"
    if "find_tag soup ''body'' = Some b" "100 < py_len (strip (get_text b))" for b
    using that desc [of b] find_tag_descendant [of soup "''body''" b] by (simp add: guess_def)
  show ?thesis
    using par loop body
    by (auto simp: detect_from_content_def Let_def guess_def split: option.splits)
qed

lemma try_block_no_faults: "try_block w no_faults n u = try_body w n u"
  by (simp add: try_block_def try_body_def no_faults_def analyze_soup_def Let_def
      split: sum.splits)

lemma call_without_faults:
  "analyze_website_call w no_faults (map_of [(''name'', n), (''url'', u)])
   = ([''Analyzing: '' @ n @ '' - '' @ u],
      Inr (analyze_website w \<lparr>org_name = n, org_url = u\<rparr>))"
  by (simp add: analyze_website_call_def lookup_def try_block_no_faults analyze_website_def
      Let_def split: sum.splits)

lemma missing_key_escapes:
  "snd (analyze_website_call w f nameless_row) = Inl (KeyError ''name'')"
  by (simp add: analyze_website_call_def lookup_def nameless_row_def)



lemma step_preserves:
  assumes "collect_step w s s'"
  shows "mset (snd s') + mset (map (analyze_website w) (fst s'))
         = mset (snd s) + mset (map (analyze_website w) (fst s))"
  using assms
proof cases
  case (yield i pending results)
  have "mset (map (analyze_website w) pending)
        = mset (map (analyze_website w) (take i pending @ pending ! i # drop (Suc i) pending))"
    using yield(3) by (simp add: id_take_nth_drop [symmetric])
  then show ?thesis using yield(1,2) by simp
qed

lemma run_preserves:
  assumes "(collect_step w)\<^sup>*\<^sup>* s s'"
  shows "mset (snd s') + mset (map (analyze_website w) (fst s'))
         = mset (snd s) + mset (map (analyze_website w) (fst s))"
  using assms
proof (induction rule: rtranclp_induct)
  case base
  show ?case by simp
next
  case (step y z)
  then show ?case using step_preserves [of w y z] by simp
qed

lemma run_exists:
  "(collect_step w)\<^sup>*\<^sup>* (pending, results) ([], results @ map (analyze_website w) pending)"
proof (induction pending arbitrary: results)
  case Nil
  show ?case by simp
next
  case (Cons x xs)
  have "collect_step w (x # xs, results) (take 0 (x # xs) @ drop (Suc 0) (x # xs),
          results @ [analyze_website w ((x # xs) ! 0)])"
    by (rule collect_step.yield) simp
  then have "collect_step w (x # xs, results) (xs, results @ [analyze_website w x])"
    by simp
  moreover have "(collect_step w)\<^sup>*\<^sup>* (xs, results @ [analyze_website w x])
                   ([], (results @ [analyze_website w x]) @ map (analyze_website w) xs)"
    by (rule Cons.IH)
  ultimately show ?case by (simp add: converse_rtranclp_into_rtranclp)
qed

lemma split_on_nonempty: "split_on sep s \<noteq> []"
  by (induction s) (auto split: list.splits)

lemma split_head_takeWhile: "split_head sep s = takeWhile (\<lambda>c. c \<noteq> sep) s"
proof (induction s)
  case Nil
  show ?case by (simp add: split_head_def)
next
  case (Cons c cs)
  then show ?case
    using split_on_nonempty [of sep cs]
    by (auto simp: split_head_def split: list.splits)
qed

lemma contains_single: "contains [c] s = (c \<in> set s)"
  by (induction s) auto

lemma lower_char_dash: "(lower_char c = CHR ''-'') = (c = CHR ''-'')"
  by (cases c) (auto simp add: lower_char_def Let_def of_bool_def split: if_splits)

lemma byte_arith:
  "0x80 \<le> (of_char d :: nat) \<Longrightarrow> (of_char d :: nat) \<le> 0x9F
   \<Longrightarrow> of_char (plus32 d) = (of_char d :: nat) + 32"
  "0x80 \<le> (of_char d :: nat) \<Longrightarrow> (of_char d :: nat) \<le> 0x8F
   \<Longrightarrow> of_char (plus16 d) = (of_char d :: nat) + 16"
  "0xA0 \<le> (of_char d :: nat) \<Longrightarrow> (of_char d :: nat) \<le> 0xAF
   \<Longrightarrow> of_char (minus32 d) = (of_char d :: nat) - 32"
  by (cases d; auto simp: plus32_def plus16_def minus32_def of_bool_def split: if_splits)+

lemma high_bytes:
  "0x80 \<le> (of_char d :: nat)
   \<Longrightarrow> plus32 d \<noteq> CHR ''-'' \<and> plus16 d \<noteq> CHR ''-'' \<and> minus32 d \<noteq> CHR ''-''"
  by (cases d) (auto simp: plus32_def plus16_def minus32_def of_bool_def split: if_splits)

lemma lower_sep: "lower (xs @ CHR ''-'' # ys) = lower xs @ CHR ''-'' # lower ys"
proof (induction xs rule: lower.induct)
  case 1
  show ?case by (cases ys) (simp_all add: lower_char_def)
next
  case (2 c)
  show ?case by (cases ys) (simp_all add: lower_char_def Let_def)
next
  case (3 c d cs)
  then show ?case by (simp add: Let_def)
qed

lemma lower_no_dash: "CHR ''-'' \<notin> set xs \<Longrightarrow> CHR ''-'' \<notin> set (lower xs)"
proof (induction xs rule: lower.induct)
  case 1
  show ?case by simp
next
  case (2 c)
  then show ?case using lower_char_dash [of c] by auto
next
  case (3 c d cs)
  have c: "c \<noteq> CHR ''-''" and d: "d \<noteq> CHR ''-''" and cs: "CHR ''-'' \<notin> set cs"
    using 3(6) by auto
  have d1: "CHR 0xD1 \<noteq> CHR ''-''" by simp
  show ?case
    using 3(1-5) c d cs d1 high_bytes [of d] lower_char_dash [of c]
    by (auto simp: Let_def)
qed

lemma html_lang_result:
  assumes "find_tag soup ''html'' = Some html_tag"
    and "map_of (attrs html_tag) ''lang'' = Some v"
  shows "detect_primary_language detect soup = takeWhile (\<lambda>c. c \<noteq> CHR ''-'') (lower v)"
proof (cases "CHR ''-'' \<in> set (lower v)")
  case True
  then show ?thesis
    using assms
    by (simp add: detect_primary_language_def has_attr_def get_def contains_single
        split_head_takeWhile)
next
  case False
  then have whole: "takeWhile (\<lambda>c. c \<noteq> CHR ''-'') (lower v) = lower v"
    by (intro takeWhile_eq_all_conv [THEN iffD2]) auto
  have "detect_primary_language detect soup = lower v"
    using assms False
    by (simp add: detect_primary_language_def has_attr_def get_def contains_single)
  then show ?thesis by (simp only: whole)
qed

section \<open>The claims\<close>

text \<open>
  C1. The claim: a select element with 2 to 15 options whose id, name or class contains a
  language token is accepted at once as a dropdown signal. The source computes
  \<open>has_lang_indicator\<close> and then appends a signal only under \<open>if not has_lang_indicator\<close>,
  so the labelled element gives no signal at all. Here the source is evaluated on a
  document that holds one select element with the id \<open>language\<close> and two options: the
  element carries the token, has two options, and the detector returns no dropdown signal.
\<close>

theorem labelled_select_gives_no_signal:
  "has_lang_indicator labelled_select
   \<and> length (find_all labelled_select ''option'') = 2
   \<and> filter is_language_select (detect_language_options str (document [labelled_select])) = []"
  by (simp add: language_select_signals labelled_select_def str_defs dom_defs approach1_defs)




text \<open>
  C3. The claim: exactly the statuses outside 2xx are failures of a site, and every 2xx
  response goes on to the parser and the three detectors. The source tests
  \<open>response.status_code != 200\<close>: a response with the status 203 gives an error result
  that carries 203, and its page, which declares the language \<open>de\<close>, is never read.
\<close>

theorem status_203_counterexample:
  "status (analyze_website
             (fixed_world (Inr (response_of 203 ''<html lang=de>'')) (Inr german_page))
             example_org) = StatusError
   \<and> status_code (analyze_website
             (fixed_world (Inr (response_of 203 ''<html lang=de>'')) (Inr german_page))
             example_org) = Some 203
   \<and> primary_language (analyze_website
             (fixed_world (Inr (response_of 203 ''<html lang=de>'')) (Inr german_page))
             example_org) = None"
  by (simp add: world_defs)

text \<open>
  C3, amended. Exactly the statuses other than 200 are failures of a site: a response
  whose status is not 200 gives a result with the status \<open>error\<close> that carries the HTTP
  status and nothing from the parser or the detectors, and a response with the status 200
  goes on to the parser and, when the parser returns a document, to the three detectors.
\<close>

theorem status_other_than_200_is_error:
  "requests_get w (org_url org) = Inr resp \<Longrightarrow>
   (response_status_code resp \<noteq> 200 \<longrightarrow>
      analyze_website w org =
        \<lparr>name = org_name org, url = org_url org, status = StatusError,
         status_code = Some (response_status_code resp), error = None,
         primary_language = None, has_language_options = False, language_options = [],
         has_non_english_resources = False\<rparr>)
   \<and> (response_status_code resp = 200 \<longrightarrow>
        (\<forall>soup. BeautifulSoup w (response_text resp) = Inr soup \<longrightarrow>
           analyze_website w org =
             \<lparr>name = org_name org, url = org_url org, status = StatusSuccess,
              status_code = None, error = None,
              primary_language = Some (detect_primary_language (langdetect w) soup),
              has_language_options = (0 < length (detect_language_options (str_of w) soup)),
              language_options = detect_language_options (str_of w) soup,
              has_non_english_resources =
                check_for_non_english_resources (str_of w) soup
                  (detect_primary_language (langdetect w) soup)\<rparr>))"
  by (simp add: analyze_website_def try_body_def bad_status_result_def analyze_soup_def Let_def)

theorem status_other_than_200_is_error_witness:
  "analyze_website (fixed_world (Inr (response_of 404 [])) (Inr bare_page)) example_org
     = \<lparr>name = ''Example'', url = ''https://example.org'', status = StatusError,
        status_code = Some 404, error = None, primary_language = None,
        has_language_options = False, language_options = [],
        has_non_english_resources = False\<rparr>
   \<and> status (analyze_website (fixed_world (Inr (response_of 200 [])) (Inr german_page))
        example_org) = StatusSuccess
   \<and> primary_language (analyze_website (fixed_world (Inr (response_of 200 [])) (Inr german_page))
        example_org) = Some ''de''"
proof -
  have de: "detect_primary_language (\<lambda>t. None) german_page = ''de''"
    by (simp add: german_page_def primary_defs dom_defs str_defs)
  show ?thesis
    using status_other_than_200_is_error
            [of "fixed_world (Inr (response_of 404 [])) (Inr bare_page)" example_org
                "response_of 404 []"]
          status_other_than_200_is_error
            [of "fixed_world (Inr (response_of 200 [])) (Inr german_page)" example_org
                "response_of 200 []"]
          de
    by (simp add: fixed_world_def example_org_def response_of_def)
qed

text \<open>
  C4. Every result of \<open>analyze_website\<close>, on each of its return paths, has
  \<open>has_language_options\<close> equal to \<open>len(language_options) > 0\<close>, and its
  \<open>primary_language\<close> is \<open>None\<close> exactly when its status is \<open>error\<close>. When the page is
  read and no language can be extracted from it (the first html element, if there is
  one, has no lang attribute; the first content-language meta element, if there is one,
  has no content attribute; and every text of the page that is longer than 100
  characters, be it the first five paragraphs joined or the stripped text of an element,
  is one on which the guesser fails), the status is \<open>success\<close> and \<open>primary_language\<close> is
  the string \<open>unknown\<close>.
\<close>

theorem site_result_invariant:
  "has_language_options (analyze_website w org)
     = (0 < length (language_options (analyze_website w org)))
   \<and> (primary_language (analyze_website w org) = None)
     = (status (analyze_website w org) = StatusError)
   \<and> (requests_get w (org_url org) = Inr resp \<and> response_status_code resp = 200
        \<and> BeautifulSoup w (response_text resp) = Inr soup
        \<and> (\<forall>h. find_tag soup ''html'' = Some h \<longrightarrow> \<not> has_attr h ''lang'')
        \<and> (\<forall>m. find_meta_content_language soup = Some m \<longrightarrow> \<not> has_attr m ''content'')
        \<and> (\<forall>t. (t = join '' '' (map (\<lambda>p. strip (get_text p)) (take 5 (find_all soup ''p'')))
                  \<or> (\<exists>c \<in> set (descendants soup). t = strip (get_text c)))
                 \<and> 100 < py_len t
                \<longrightarrow> langdetect w t = None)
      \<longrightarrow> status (analyze_website w org) = StatusSuccess
          \<and> primary_language (analyze_website w org) = Some ''unknown'')"
proof -
  have inv: "has_language_options r = (0 < length (language_options r))
             \<and> (primary_language r = None) = (status r = StatusError)"
    if "r = analyze_website w org" for r
    unfolding that
    by (simp add: analyze_website_def try_body_def bad_status_result_def exception_result_def
        analyze_soup_def Let_def split: sum.splits)
  have unknown: "status (analyze_website w org) = StatusSuccess
                 \<and> primary_language (analyze_website w org) = Some ''unknown''"
    if fetch: "requests_get w (org_url org) = Inr resp" "response_status_code resp = 200"
      "BeautifulSoup w (response_text resp) = Inr soup"
      and html: "\<forall>h. find_tag soup ''html'' = Some h \<longrightarrow> \<not> has_attr h ''lang''"
      and meta: "\<forall>m. find_meta_content_language soup = Some m \<longrightarrow> \<not> has_attr m ''content''"
      and fails: "\<forall>t. (t = join '' '' (map (\<lambda>p. strip (get_text p)) (take 5 (find_all soup ''p'')))
                  \<or> (\<exists>c \<in> set (descendants soup). t = strip (get_text c)))
                 \<and> 100 < py_len t
                \<longrightarrow> langdetect w t = None"
  proof -
    have content: "detect_from_content (langdetect w) soup = ''unknown''"
      using fails by (intro detect_from_content_no_answer) blast+
    have from_meta: "detect_from_meta (langdetect w) soup = ''unknown''"
      using meta content by (auto simp: detect_from_meta_def split: option.splits)
    have "detect_primary_language (langdetect w) soup = ''unknown''"
      using html from_meta by (auto simp: detect_primary_language_def split: option.splits)
    then show ?thesis
      using fetch by (simp add: analyze_website_def try_body_def analyze_soup_def Let_def)
  qed
  show ?thesis using inv unknown by blast
qed

theorem site_result_invariant_witness:
  "status (analyze_website (english_world (Inr (response_of 200 [])) (Inr undeclared_page)) example_org)
     = StatusSuccess
   \<and> primary_language
        (analyze_website (english_world (Inr (response_of 200 [])) (Inr undeclared_page)) example_org)
     = Some ''unknown''
   \<and> has_language_options
        (analyze_website (english_world (Inr (response_of 200 [])) (Inr undeclared_page)) example_org)
     = (0 < length (language_options
        (analyze_website (english_world (Inr (response_of 200 [])) (Inr undeclared_page)) example_org)))
   \<and> find_tag undeclared_page ''html''
       = Some (Tag ''html'' []
           [Tag ''head'' [] [Tag ''meta'' [(''http-equiv'', ''content-language'')] []],
            Tag ''body'' [] [Tag ''p'' [] [Text ''Hello'']]])
   \<and> always_english ''Hello'' = Some ''en''"
proof -
  have html: "find_tag undeclared_page ''html''
       = Some (Tag ''html'' []
           [Tag ''head'' [] [Tag ''meta'' [(''http-equiv'', ''content-language'')] []],
            Tag ''body'' [] [Tag ''p'' [] [Text ''Hello'']]])"
    by (simp add: undeclared_page_def dom_defs)
  have meta: "find_meta_content_language undeclared_page
       = Some (Tag ''meta'' [(''http-equiv'', ''content-language'')] [])"
    by (simp add: undeclared_page_def find_meta_content_language_def dom_defs)
  have short: "\<forall>t. (t = join '' '' (map (\<lambda>p. strip (get_text p)) (take 5 (find_all undeclared_page ''p'')))
                  \<or> (\<exists>c \<in> set (descendants undeclared_page). t = strip (get_text c)))
                 \<and> 100 < py_len t
                \<longrightarrow> always_english t = None"
    by (auto simp: undeclared_page_def dom_defs str_defs py_len_def)
  have guesser: "always_english ''Hello'' = Some ''en''"
    by (simp add: always_english_def)
  have main: "status (analyze_website (english_world (Inr (response_of 200 [])) (Inr undeclared_page)) example_org)
     = StatusSuccess
   \<and> primary_language
        (analyze_website (english_world (Inr (response_of 200 [])) (Inr undeclared_page)) example_org)
     = Some ''unknown''
   \<and> has_language_options
        (analyze_website (english_world (Inr (response_of 200 [])) (Inr undeclared_page)) example_org)
     = (0 < length (language_options
        (analyze_website (english_world (Inr (response_of 200 [])) (Inr undeclared_page)) example_org)))"
    using site_result_invariant
            [of "english_world (Inr (response_of 200 [])) (Inr undeclared_page)" example_org
                "response_of 200 []" undeclared_page]
          html meta short
    by (simp add: english_world_def example_org_def response_of_def has_attr_def)
  from main html guesser show ?thesis by (intro conjI) simp_all
qed

text \<open>
  C5. For every organization, a row with the keys \<open>name\<close> and \<open>url\<close>, and for every
  world, \<open>analyze_website\<close> returns a result and no exception leaves it: an exception
  raised by the request, by the parser or by one of the three detectors is caught by the
  handler of the \<open>try\<close> statement and becomes a result with the status \<open>error\<close> that
  carries the description of the exception; when nothing raises, the result is the one
  the body returns.
\<close>

theorem exceptions_become_error_results:
  assumes "org ''name'' = Some n" and "org ''url'' = Some u"
  shows
  "(\<exists>r. snd (analyze_website_call w f org) = Inr r)
   \<and> (\<forall>e. requests_get w u = Inl e
          \<or> (\<exists>resp. requests_get w u = Inr resp \<and> response_status_code resp = 200
                \<and> (BeautifulSoup w (response_text resp) = Inl e
                    \<or> (\<exists>soup. BeautifulSoup w (response_text resp) = Inr soup
                          \<and> (primary_fault f soup = Some e
                              \<or> (primary_fault f soup = None \<and> options_fault f soup = Some e)
                              \<or> (primary_fault f soup = None \<and> options_fault f soup = None
                                  \<and> resources_fault f soup
                                       (detect_primary_language (langdetect w) soup) = Some e)))))
        \<longrightarrow> snd (analyze_website_call w f org)
            = Inr \<lparr>name = n, url = u, status = StatusError, status_code = None,
                   error = Some e, primary_language = None, has_language_options = False,
                   language_options = [], has_non_english_resources = False\<rparr>)
   \<and> (\<forall>r. try_block w f n u = Inr r \<longrightarrow> snd (analyze_website_call w f org) = Inr r)"
proof -
  have call: "snd (analyze_website_call w f org)
              = (case try_block w f n u of Inr r \<Rightarrow> Inr r | Inl e \<Rightarrow> Inr (exception_result n u e))"
    using assms by (simp add: analyze_website_call_def lookup_def)
  have returns: "\<exists>r. snd (analyze_website_call w f org) = Inr r"
    unfolding call by (cases "try_block w f n u") simp_all
  have raised: "try_block w f n u = Inl e"
    if "requests_get w u = Inl e
          \<or> (\<exists>resp. requests_get w u = Inr resp \<and> response_status_code resp = 200
                \<and> (BeautifulSoup w (response_text resp) = Inl e
                    \<or> (\<exists>soup. BeautifulSoup w (response_text resp) = Inr soup
                          \<and> (primary_fault f soup = Some e
                              \<or> (primary_fault f soup = None \<and> options_fault f soup = Some e)
                              \<or> (primary_fault f soup = None \<and> options_fault f soup = None
                                  \<and> resources_fault f soup
                                       (detect_primary_language (langdetect w) soup) = Some e)))))"
    for e
    using that by (auto simp: try_block_def Let_def)
  show ?thesis
    using returns raised by (auto simp: call exception_result_def)
qed

theorem exceptions_become_error_results_witness:
  "snd (analyze_website_call (fixed_world (Inl ''Connection timed out'') (Inr bare_page))
          no_faults example_row)
     = Inr \<lparr>name = ''Example'', url = ''https://example.org'', status = StatusError,
            status_code = None, error = Some ''Connection timed out'', primary_language = None,
            has_language_options = False, language_options = [],
            has_non_english_resources = False\<rparr>
   \<and> snd (analyze_website_call (fixed_world (Inr (response_of 200 [])) (Inl ''markup rejected''))
          no_faults example_row)
     = Inr \<lparr>name = ''Example'', url = ''https://example.org'', status = StatusError,
            status_code = None, error = Some ''markup rejected'', primary_language = None,
            has_language_options = False, language_options = [],
            has_non_english_resources = False\<rparr>
   \<and> snd (analyze_website_call (fixed_world (Inr (response_of 200 [])) (Inr german_page))
          rendering_fails example_row)
     = Inr \<lparr>name = ''Example'', url = ''https://example.org'', status = StatusError,
            status_code = None, error = Some ''maximum recursion depth exceeded'',
            primary_language = None, has_language_options = False, language_options = [],
            has_non_english_resources = False\<rparr>"
proof -
  have keys: "example_row ''name'' = Some ''Example''"
    "example_row ''url'' = Some ''https://example.org''"
    by (simp_all add: example_row_def)
  have a: "snd (analyze_website_call (fixed_world (Inl ''Connection timed out'') (Inr bare_page))
          no_faults example_row)
     = Inr \<lparr>name = ''Example'', url = ''https://example.org'', status = StatusError,
            status_code = None, error = Some ''Connection timed out'', primary_language = None,
            has_language_options = False, language_options = [],
            has_non_english_resources = False\<rparr>"
    using exceptions_become_error_results
            [OF keys, of "fixed_world (Inl ''Connection timed out'') (Inr bare_page)" no_faults]
    by (simp add: fixed_world_def)
  have b: "snd (analyze_website_call (fixed_world (Inr (response_of 200 [])) (Inl ''markup rejected''))
          no_faults example_row)
     = Inr \<lparr>name = ''Example'', url = ''https://example.org'', status = StatusError,
            status_code = None, error = Some ''markup rejected'', primary_language = None,
            has_language_options = False, language_options = [],
            has_non_english_resources = False\<rparr>"
    using exceptions_become_error_results
            [OF keys, of "fixed_world (Inr (response_of 200 [])) (Inl ''markup rejected'')"
               no_faults]
    by (simp add: fixed_world_def response_of_def)
  have c: "snd (analyze_website_call (fixed_world (Inr (response_of 200 [])) (Inr german_page))
          rendering_fails example_row)
     = Inr \<lparr>name = ''Example'', url = ''https://example.org'', status = StatusError,
            status_code = None, error = Some ''maximum recursion depth exceeded'',
            primary_language = None, has_language_options = False, language_options = [],
            has_non_english_resources = False\<rparr>"
    using exceptions_become_error_results
            [OF keys, of "fixed_world (Inr (response_of 200 [])) (Inr german_page)"
               rendering_fails]
    by (simp add: fixed_world_def response_of_def rendering_fails_def)
  from a b c show ?thesis by (intro conjI)
qed

lemma two_steps:
  "collects w [a, b] [analyze_website w b, analyze_website w a]"
proof -
  have "collect_step w ([a, b], [])
          (take 1 [a, b] @ drop (Suc 1) [a, b], [] @ [analyze_website w ([a, b] ! 1)])"
    by (rule collect_step.yield) simp
  then have s1: "collect_step w ([a, b], []) ([a], [analyze_website w b])"
    by simp
  have "collect_step w ([a], [analyze_website w b])
          (take 0 [a] @ drop (Suc 0) [a], [analyze_website w b] @ [analyze_website w ([a] ! 0)])"
    by (rule collect_step.yield) simp
  then have s2: "collect_step w ([a], [analyze_website w b])
                   ([], [analyze_website w b, analyze_website w a])"
    by simp
  from s1 have "(collect_step w)\<^sup>*\<^sup>* ([a, b], []) ([a], [analyze_website w b])"
    by (rule r_into_rtranclp)
  then have "(collect_step w)\<^sup>*\<^sup>* ([a, b], []) ([], [analyze_website w b, analyze_website w a])"
    using s2 by (rule rtranclp.rtrancl_into_rtrancl)
  then show ?thesis by (simp only: collects_def)
qed

text \<open>
  C6. Over a list of N organizations the orchestrator collects exactly N results, one per
  organization, in whatever order the tasks complete: a run to the end exists, and every
  run to the end yields as many results as there are organizations, the results being the
  results of \<open>analyze_website\<close> on the organizations, each as often as its organization
  occurs. A task that fails contributes its error result like any other.
\<close>

theorem orchestrator_collects_every_result:
  "(\<exists>results. collects w orgs results)
   \<and> (\<forall>results. collects w orgs results \<longrightarrow>
        length results = length orgs
        \<and> mset results = mset (map (analyze_website w) orgs))"
proof -
  have ex: "\<exists>results. collects w orgs results"
    using run_exists [of w orgs "[]"] by (auto simp: collects_def)
  have all: "length results = length orgs \<and> mset results = mset (map (analyze_website w) orgs)"
    if "collects w orgs results" for results
  proof -
    from that have m: "mset results = mset (map (analyze_website w) orgs)"
      using run_preserves [of w "(orgs, [])" "([], results)"] by (simp add: collects_def)
    have "length results = size (mset results)" by simp
    also have "\<dots> = size (mset (map (analyze_website w) orgs))" by (simp only: m)
    also have "\<dots> = length orgs" by simp
    finally show ?thesis using m by simp
  qed
  show ?thesis using ex all by blast
qed

theorem orchestrator_collects_every_result_witness:
  "collects (fixed_world (Inl ''Connection timed out'') (Inr bare_page))
     [example_org, second_org]
     [analyze_website (fixed_world (Inl ''Connection timed out'') (Inr bare_page)) second_org,
      analyze_website (fixed_world (Inl ''Connection timed out'') (Inr bare_page)) example_org]
   \<and> length
       [analyze_website (fixed_world (Inl ''Connection timed out'') (Inr bare_page)) second_org,
        analyze_website (fixed_world (Inl ''Connection timed out'') (Inr bare_page)) example_org]
     = length [example_org, second_org]
   \<and> status (analyze_website (fixed_world (Inl ''Connection timed out'') (Inr bare_page))
        second_org) = StatusError"
proof -
  have run: "collects (fixed_world (Inl ''Connection timed out'') (Inr bare_page))
     [example_org, second_org]
     [analyze_website (fixed_world (Inl ''Connection timed out'') (Inr bare_page)) second_org,
      analyze_website (fixed_world (Inl ''Connection timed out'') (Inr bare_page)) example_org]"
    by (rule two_steps)
  have len: "length
       [analyze_website (fixed_world (Inl ''Connection timed out'') (Inr bare_page)) second_org,
        analyze_website (fixed_world (Inl ''Connection timed out'') (Inr bare_page)) example_org]
     = length [example_org, second_org]"
    using orchestrator_collects_every_result
            [of "fixed_world (Inl ''Connection timed out'') (Inr bare_page)"
                "[example_org, second_org]"] run
    by blast
  have err: "status (analyze_website (fixed_world (Inl ''Connection timed out'') (Inr bare_page))
        second_org) = StatusError"
    by (simp add: world_defs)
  from run len err show ?thesis by (intro conjI)
qed

text \<open>
  C7. When the first html element of the document carries a lang attribute of the form
  \<open>xx-YY\<close> (a primary subtag without a hyphen, a hyphen, a rest), the detector returns
  the primary subtag in lower case, whatever the guesser and the rest of the document
  are: the meta element and the text are not consulted. For \<open>fr-CA\<close> it returns \<open>fr\<close>.
\<close>

theorem primary_subtag_of_html_lang:
  assumes "find_tag soup ''html'' = Some html_tag"
    and "map_of (attrs html_tag) ''lang'' = Some (xx @ ''-'' @ yy)"
    and "CHR ''-'' \<notin> set xx"
  shows "detect_primary_language detect soup = lower xx"
proof -
  have "CHR ''-'' \<notin> set (lower xx)"
    using assms(3) by (rule lower_no_dash)
  then have "takeWhile (\<lambda>c. c \<noteq> CHR ''-'') (lower xx @ CHR ''-'' # lower yy) = lower xx"
    by (auto simp: takeWhile_tail)
  moreover have "lower (xx @ ''-'' @ yy) = lower xx @ CHR ''-'' # lower yy"
    using lower_sep [of xx yy] by simp
  ultimately show ?thesis
    using html_lang_result [OF assms(1,2), of detect] by simp
qed

theorem primary_subtag_of_html_lang_witness:
  "find_tag french_canadian_page ''html''
     = Some (Tag ''html'' [(''lang'', ''fr-CA'')]
         [Tag ''head'' [] [Tag ''meta'' [(''http-equiv'', ''content-language''), (''content'', ''de'')] []],
          Tag ''body'' [] [Tag ''p'' [] [Text ''Hello'']]])
   \<and> detect_primary_language always_english french_canadian_page = ''fr''"
proof -
  have html: "find_tag french_canadian_page ''html''
     = Some (Tag ''html'' [(''lang'', ''fr-CA'')]
         [Tag ''head'' [] [Tag ''meta'' [(''http-equiv'', ''content-language''), (''content'', ''de'')] []],
          Tag ''body'' [] [Tag ''p'' [] [Text ''Hello'']]])"
    by (simp add: french_canadian_page_def dom_defs)
  have "detect_primary_language always_english french_canadian_page = lower ''fr''"
    by (rule primary_subtag_of_html_lang [where yy = "''CA''", OF html]) simp_all
  then show ?thesis using html by (simp add: lower_char_def)
qed

text \<open>
  C8. The claim: the alternate-link strategy emits no signal when every hreflang value is
  \<open>en\<close> or \<open>x-default\<close>, and exactly one signal with the full set of the other values
  when there are any. The source lowers each value and skips the empty string: on a
  document whose two alternate links have the hreflang values \<open>EN\<close> and the empty
  string, both other than \<open>en\<close> and \<open>x-default\<close>, it emits no signal.
\<close>

theorem upper_en_page_counterexample:
  "alternate_links upper_en_page = [alternate_link ''EN'', alternate_link []]
   \<and> get (alternate_link ''EN'') ''hreflang'' [] = ''EN''
   \<and> get (alternate_link []) ''hreflang'' [] = []
   \<and> filter is_alternate_hreflang (detect_language_options name_markup upper_en_page) = []"
  by (simp add: alternate_hreflang_signals upper_en_page_def alternate_link_def approach4_defs
      dom_defs str_defs)

text \<open>
  C8, amended. The alternate-link strategy reads the hreflang value of every link element
  with \<open>rel="alternate"\<close> in lower case and ignores the empty string: when none of these
  lowered values is other than the empty string, \<open>en\<close> and \<open>x-default\<close>, it emits no
  signal; otherwise it emits exactly one signal, which carries each of the other lowered
  values once, and their number.
\<close>

theorem alternate_hreflang_signal:
  "(let codes = filter (\<lambda>c. c \<noteq> [] \<and> c \<noteq> ''en'' \<and> c \<noteq> ''x-default'')
                  (map (\<lambda>link. lower (get link ''hreflang'' [])) (alternate_links soup))
    in (codes = [] \<longrightarrow> filter is_alternate_hreflang (detect_language_options str soup) = [])
       \<and> (codes \<noteq> [] \<longrightarrow>
            (\<exists>ls. filter is_alternate_hreflang (detect_language_options str soup)
                    = [AlternateHreflang ls (card (set codes))]
                  \<and> set ls = set codes \<and> distinct ls)))"
  by (simp add: alternate_hreflang_signals approach4_def alt_langs_def Let_def
      length_remdups_card_conv)

theorem alternate_hreflang_signal_witness:
  "filter is_alternate_hreflang (detect_language_options name_markup default_only_page) = []
   \<and> (\<exists>ls. filter is_alternate_hreflang (detect_language_options name_markup hreflang_page)
              = [AlternateHreflang ls 2]
            \<and> set ls = {''fr'', ''de''} \<and> distinct ls)"
proof -
  have none: "filter (\<lambda>c. c \<noteq> [] \<and> c \<noteq> ''en'' \<and> c \<noteq> ''x-default'')
                (map (\<lambda>link. lower (get link ''hreflang'' [])) (alternate_links default_only_page))
              = []"
    by (simp add: default_only_page_def alternate_link_def alternate_links_def dom_defs str_defs)
  have some: "filter (\<lambda>c. c \<noteq> [] \<and> c \<noteq> ''en'' \<and> c \<noteq> ''x-default'')
                (map (\<lambda>link. lower (get link ''hreflang'' [])) (alternate_links hreflang_page))
              = [''fr'', ''fr'', ''de'']"
    by (simp add: hreflang_page_def alternate_link_def alternate_links_def dom_defs str_defs)
  have card: "card (set [''fr'', ''fr'', ''de'']) = 2"
    by simp
  have a: "filter is_alternate_hreflang (detect_language_options name_markup default_only_page) = []"
    using alternate_hreflang_signal [of default_only_page name_markup] none
    by (simp add: Let_def)
  have b: "\<exists>ls. filter is_alternate_hreflang (detect_language_options name_markup hreflang_page)
              = [AlternateHreflang ls 2]
            \<and> set ls = {''fr'', ''de''} \<and> distinct ls"
    using alternate_hreflang_signal [of hreflang_page name_markup] some card
    by (simp add: Let_def numeral_2_eq_2)
  from a b show ?thesis by (intro conjI)
qed




text \<open>
  C10. When the first html element of the document carries a lang attribute at all, the
  detector returns its value in lower case, cut before the first hyphen and not checked
  against any list of languages, whatever the guesser and the rest of the document are;
  for the empty value it returns the empty string.
\<close>

theorem html_lang_returned_unvalidated:
  "find_tag soup ''html'' = Some html_tag \<Longrightarrow> map_of (attrs html_tag) ''lang'' = Some v \<Longrightarrow>
   detect_primary_language detect soup = takeWhile (\<lambda>c. c \<noteq> CHR ''-'') (lower v)
   \<and> (v = [] \<longrightarrow> detect_primary_language detect soup = [])"
  using html_lang_result [of soup html_tag v detect] by auto

theorem html_lang_returned_unvalidated_witness:
  "find_tag empty_lang_page ''html''
     = Some (Tag ''html'' [(''lang'', [])]
         [Tag ''head'' [] [Tag ''meta'' [(''http-equiv'', ''content-language''), (''content'', ''de'')] []]])
   \<and> detect_primary_language always_english empty_lang_page = []"
proof -
  have html: "find_tag empty_lang_page ''html''
     = Some (Tag ''html'' [(''lang'', [])]
         [Tag ''head'' [] [Tag ''meta'' [(''http-equiv'', ''content-language''), (''content'', ''de'')] []]])"
    by (simp add: empty_lang_page_def dom_defs)
  have "detect_primary_language always_english empty_lang_page = []"
    using html_lang_returned_unvalidated [OF html, of "[]" always_english]
    by simp
  then show ?thesis using html by simp
qed

end
